theory Spec2Isabelle
  imports Complex_Main "HOL-Library.Sublist"
begin

section \<open>Data model\<close>

text \<open>
  A JSON document as Python's \<^verbatim>\<open>json\<close> module (and Flask's \<^verbatim>\<open>get_json\<close>) hands it to
  the program: \<^verbatim>\<open>None\<close>, \<^verbatim>\<open>bool\<close>, \<^verbatim>\<open>int\<close>, \<^verbatim>\<open>float\<close>, \<^verbatim>\<open>str\<close>, \<^verbatim>\<open>list\<close> and \<^verbatim>\<open>dict\<close>.
  The type \<open>'f\<close> stands for Python's \<^verbatim>\<open>float\<close>; no floating-point arithmetic is done by
  the program itself, so the type stays abstract. A \<^verbatim>\<open>dict\<close> is an association list in
  insertion order; a Python \<^verbatim>\<open>dict\<close> holds every key once, and a key is looked up
  with \<open>map_of\<close>.
\<close>

datatype 'f json =
    JNull
  | JBool bool
  | JInt int
  | JFloat 'f
  | JStr string
  | JList "'f json list"
  | JObj "(string \<times> 'f json) list"

text \<open>
  The exceptions the program raises or lets through, each with the text \<^verbatim>\<open>str(e)\<close>
  gives. \<open>OtherException\<close> is any further subclass of \<^verbatim>\<open>Exception\<close> that is not a
  \<^verbatim>\<open>ValueError\<close>.
\<close>

datatype exn =
    ValueError string
  | TypeError string
  | IndexError string
  | KeyError string
  | FileNotFoundError string
  | FileExistsError string
  | NotADirectoryError string
  | IsADirectoryError string
  | OtherException string

fun exn_str :: "exn \<Rightarrow> string" where
  "exn_str (ValueError m) = m"
| "exn_str (TypeError m) = m"
| "exn_str (IndexError m) = m"
| "exn_str (KeyError m) = m"
| "exn_str (FileNotFoundError m) = m"
| "exn_str (FileExistsError m) = m"
| "exn_str (NotADirectoryError m) = m"
| "exn_str (IsADirectoryError m) = m"
| "exn_str (OtherException m) = m"

text \<open>
  The fitted pipeline is opaque: its \<^verbatim>\<open>predict\<close> operation, which may raise, and its
  \<^verbatim>\<open>predict_proba\<close> operation, present or not (\<^verbatim>\<open>hasattr(MODEL, "predict_proba")\<close>).
  Both results are taken after \<^verbatim>\<open>.tolist()\<close>.
\<close>

record 'f pipeline =
  pipeline_predict :: "'f list list \<Rightarrow> exn + int list"
  pipeline_predict_proba :: "('f list list \<Rightarrow> exn + 'f list list) option"

text \<open>
  The process-wide state of \<^verbatim>\<open>app.py\<close> after startup (\<^verbatim>\<open>MODEL\<close>, \<^verbatim>\<open>FEATURE_ORDER\<close>,
  \<^verbatim>\<open>CLASS_NAMES\<close>), together with the two Python builtins the validation calls:
  \<^verbatim>\<open>float(v)\<close>, with \<open>None\<close> when it raises, and \<^verbatim>\<open>repr\<close> of a \<^verbatim>\<open>str\<close>, which the
  f-string \<^verbatim>\<open>{missing}\<close> applies to every element of the list.
\<close>

record 'f env =
  py_float :: "'f json \<Rightarrow> 'f option"
  py_repr :: "string \<Rightarrow> string"
  FEATURE_ORDER :: "string list"
  CLASS_NAMES :: "string list"
  MODEL :: "'f pipeline"

section \<open>Formatting\<close>

definition digit_char :: "nat \<Rightarrow> char" where
  "digit_char d = ''0123456789'' ! d"

text \<open>\<^verbatim>\<open>str(idx)\<close> for a non-negative \<^verbatim>\<open>int\<close>: the decimal digits.\<close>

fun str_nat :: "nat \<Rightarrow> string" where
  "str_nat n = (if n < 10 then [digit_char n] else str_nat (n div 10) @ [digit_char (n mod 10)])"

declare str_nat.simps [simp del]

fun join_comma :: "string list \<Rightarrow> string" where
  "join_comma [] = []"
| "join_comma [s] = s"
| "join_comma (s # t # ss) = s @ '', '' @ join_comma (t # ss)"

text \<open>
  The number that a string of decimal digits denotes. It is not part of the program: the
  theorems use it to say which position a message names.
\<close>

definition decimal_value :: "string \<Rightarrow> nat" where
  "decimal_value ds = foldl (\<lambda>n c. 10 * n + (of_char c - 48)) 0 ds"

text \<open>\<^verbatim>\<open>str\<close> of a list of \<^verbatim>\<open>str\<close>, as the f-string \<^verbatim>\<open>{missing}\<close> renders it.\<close>

definition str_list :: "'f env \<Rightarrow> string list \<Rightarrow> string" where
  "str_list E xs = ''['' @ join_comma (map (py_repr E) xs) @ '']''"

section \<open>\<^verbatim>\<open>_validate_and_build_matrix\<close>\<close>

definition msg_non_empty_list :: string where
  "msg_non_empty_list = ''The 'instances' field must be a non-empty list.''"

definition msg_not_object :: "nat \<Rightarrow> string" where
  "msg_not_object idx = ''Instance at position '' @ str_nat idx @ '' is not a valid JSON object.''"

definition msg_missing :: "'f env \<Rightarrow> nat \<Rightarrow> string list \<Rightarrow> string" where
  "msg_missing E idx missing =
     ''Missing features in instance '' @ str_nat idx @ '': '' @ str_list E missing"

definition msg_not_numeric :: "string \<Rightarrow> nat \<Rightarrow> string" where
  "msg_not_numeric f idx =
     ''Value of '' @ [CHR 0x27] @ f @ [CHR 0x27] @ '' in instance '' @ str_nat idx
       @ '' is not numeric.''"

text \<open>
  The inner loop \<^verbatim>\<open>for f in FEATURE_ORDER\<close>: \<open>fs\<close> are the features still to visit and
  \<open>values\<close> is the list built so far. \<^verbatim>\<open>row[f]\<close> raises \<^verbatim>\<open>KeyError\<close> on an absent key.
\<close>

fun values_loop ::
  "'f env \<Rightarrow> nat \<Rightarrow> (string \<times> 'f json) list \<Rightarrow> string list \<Rightarrow> 'f list \<Rightarrow> exn + 'f list" where
  "values_loop E idx row [] values = Inr values"
| "values_loop E idx row (f # fs) values =
     (case map_of row f of
        None \<Rightarrow> Inl (KeyError (py_repr E f))
      | Some v \<Rightarrow>
          (case py_float E v of
             None \<Rightarrow> Inl (ValueError (msg_not_numeric f idx))
           | Some x \<Rightarrow> values_loop E idx row fs (values @ [x])))"

text \<open>The body of the outer loop for one \<^verbatim>\<open>row\<close> at position \<^verbatim>\<open>idx\<close>: the row of values.\<close>

definition check_row :: "'f env \<Rightarrow> nat \<Rightarrow> 'f json \<Rightarrow> exn + 'f list" where
  "check_row E idx row =
     (case row of
        JObj kvs \<Rightarrow>
          (let missing = filter (\<lambda>f. f \<notin> set (map fst kvs)) (FEATURE_ORDER E)
           in if missing \<noteq> [] then Inl (ValueError (msg_missing E idx missing))
              else values_loop E idx kvs (FEATURE_ORDER E) [])
      | _ \<Rightarrow> Inl (ValueError (msg_not_object idx)))"

text \<open>The outer loop \<^verbatim>\<open>for idx, row in enumerate(instances)\<close>, with \<^verbatim>\<open>X_rows\<close> so far.\<close>

fun rows_loop :: "'f env \<Rightarrow> nat \<Rightarrow> 'f json list \<Rightarrow> 'f list list \<Rightarrow> exn + 'f list list" where
  "rows_loop E idx [] X_rows = Inr X_rows"
| "rows_loop E idx (row # rest) X_rows =
     (case check_row E idx row of
        Inl e \<Rightarrow> Inl e
      | Inr values \<Rightarrow> rows_loop E (Suc idx) rest (X_rows @ [values]))"

definition validate_and_build_matrix :: "'f env \<Rightarrow> 'f json \<Rightarrow> exn + 'f list list" where
  "validate_and_build_matrix E instances =
     (case instances of
        JList rows \<Rightarrow>
          (if length rows = 0 then Inl (ValueError msg_non_empty_list)
           else rows_loop E 0 rows [])
      | _ \<Rightarrow> Inl (ValueError msg_non_empty_list))"

section \<open>The \<^verbatim>\<open>/predict\<close> handler\<close>

text \<open>Sequencing of steps that may raise: the first exception ends the \<^verbatim>\<open>try\<close> body.\<close>

definition and_then :: "exn + 'a \<Rightarrow> ('a \<Rightarrow> exn + 'b) \<Rightarrow> exn + 'b" where
  "and_then r k = (case r of Inl e \<Rightarrow> Inl e | Inr x \<Rightarrow> k x)"

text \<open>
  \<^verbatim>\<open>key in payload\<close> for a \<^verbatim>\<open>str\<close> key: key membership on a \<^verbatim>\<open>dict\<close>, element membership on
  a \<^verbatim>\<open>list\<close>, substring test on a \<^verbatim>\<open>str\<close>, and \<^verbatim>\<open>TypeError\<close> on the other JSON values.
\<close>

definition py_in :: "string \<Rightarrow> 'f json \<Rightarrow> exn + bool" where
  "py_in k payload =
     (case payload of
        JObj kvs \<Rightarrow> Inr (k \<in> set (map fst kvs))
      | JList xs \<Rightarrow> Inr (JStr k \<in> set xs)
      | JStr s \<Rightarrow> Inr (sublist k s)
      | _ \<Rightarrow> Inl (TypeError ''argument is not iterable''))"

text \<open>\<^verbatim>\<open>payload[key]\<close> for a \<^verbatim>\<open>str\<close> key.\<close>

definition py_getitem :: "'f env \<Rightarrow> 'f json \<Rightarrow> string \<Rightarrow> exn + 'f json" where
  "py_getitem E payload k =
     (case payload of
        JObj kvs \<Rightarrow> (case map_of kvs k of None \<Rightarrow> Inl (KeyError (py_repr E k)) | Some v \<Rightarrow> Inr v)
      | JList xs \<Rightarrow> Inl (TypeError ''list indices must be integers or slices, not str'')
      | JStr s \<Rightarrow> Inl (TypeError ''string indices must be integers'')
      | _ \<Rightarrow> Inl (TypeError ''object is not subscriptable''))"

text \<open>
  \<^verbatim>\<open>xs[i]\<close> on a Python list: a negative index counts from the end, and an index outside
  \<open>-len(xs) \<le> i < len(xs)\<close> raises \<^verbatim>\<open>IndexError\<close>.
\<close>

definition py_index :: "'a list \<Rightarrow> int \<Rightarrow> exn + 'a" where
  "py_index xs i =
     (let n = int (length xs)
      in if 0 \<le> i \<and> i < n then Inr (xs ! nat i)
         else if - n \<le> i \<and> i < 0 then Inr (xs ! nat (n + i))
         else Inl (IndexError ''list index out of range''))"

text \<open>The comprehension \<^verbatim>\<open>[CLASS_NAMES[i] for i in preds]\<close>, with the list built so far.\<close>

fun classes_loop :: "'f env \<Rightarrow> int list \<Rightarrow> string list \<Rightarrow> exn + string list" where
  "classes_loop E [] classes_str = Inr classes_str"
| "classes_loop E (i # preds) classes_str =
     (case py_index (CLASS_NAMES E) i of
        Inl e \<Rightarrow> Inl e
      | Inr c \<Rightarrow> classes_loop E preds (classes_str @ [c]))"

text \<open>A response: the JSON body given to \<^verbatim>\<open>jsonify\<close> and the HTTP status.\<close>

type_synonym 'f response = "'f json \<times> nat"

definition error_body :: "string \<Rightarrow> 'f json" where
  "error_body m = JObj [(''error'', JStr m)]"

definition msg_instances_key :: string where
  "msg_instances_key = ''JSON body must include the 'instances' key.''"

text \<open>\<^verbatim>\<open>probas\<close>: the pipeline's probabilities if it has the operation, else \<^verbatim>\<open>None\<close>.\<close>

definition compute_probas :: "'f env \<Rightarrow> 'f list list \<Rightarrow> exn + 'f json" where
  "compute_probas E X =
     (case pipeline_predict_proba (MODEL E) of
        Some predict_proba \<Rightarrow>
          and_then (predict_proba X) (\<lambda>ps. Inr (JList (map (\<lambda>p. JList (map JFloat p)) ps)))
      | None \<Rightarrow> Inr JNull)"

text \<open>
  The body of the \<^verbatim>\<open>try\<close> block of \<^verbatim>\<open>predict\<close>. The argument is what
  \<^verbatim>\<open>request.get_json(force=True, silent=False)\<close> does: it raises or returns the payload.
\<close>

definition predict_try :: "'f env \<Rightarrow> exn + 'f json \<Rightarrow> exn + 'f response" where
  "predict_try E get_json =
     and_then get_json (\<lambda>payload.
     and_then (py_in ''instances'' payload) (\<lambda>present.
       if \<not> present then Inr (error_body msg_instances_key, 400)
       else
         and_then (py_getitem E payload ''instances'') (\<lambda>instances.
         and_then (validate_and_build_matrix E instances) (\<lambda>X.
         and_then (pipeline_predict (MODEL E) X) (\<lambda>preds.
         and_then (compute_probas E X) (\<lambda>probas.
         and_then (classes_loop E preds []) (\<lambda>classes_str.
           Inr (JObj [(''predictions'', JList (map JInt preds)),
                      (''classes'', JList (map JStr classes_str)),
                      (''probas'', probas),
                      (''class_names'', JList (map JStr (CLASS_NAMES E)))], 200))))))))"

text \<open>\<^verbatim>\<open>predict\<close>: the \<^verbatim>\<open>try\<close> body with its two \<^verbatim>\<open>except\<close> clauses, in their order.\<close>

definition predict :: "'f env \<Rightarrow> exn + 'f json \<Rightarrow> 'f response" where
  "predict E get_json =
     (case predict_try E get_json of
        Inr resp \<Rightarrow> resp
      | Inl (ValueError m) \<Rightarrow> (error_body m, 400)
      | Inl e \<Rightarrow> (error_body (''Internal error: '' @ exn_str e), 500))"

section \<open>Artifacts on disk\<close>

text \<open>
  A path is the list of its components below the working directory, so \<^verbatim>\<open>Path(".")\<close> is
  \<open>[]\<close>, which always is a directory. A file holds what \<^verbatim>\<open>joblib.dump\<close> wrote for a model
  or what \<^verbatim>\<open>json.dump\<close> wrote for a document; \<^verbatim>\<open>joblib.load\<close> and \<^verbatim>\<open>json.load\<close> give
  that value back and raise on the other kind of file.
\<close>

type_synonym path = "string list"

datatype ('m, 'f) node = Dir | ModelFile 'm | JsonFile "'f json"

type_synonym ('m, 'f) fs = "path \<Rightarrow> ('m, 'f) node option"

text \<open>
  \<^verbatim>\<open>Path.mkdir(parents=True, exist_ok=True)\<close>: \<open>pre\<close> is the part of the path already
  known to be a directory, \<open>cs\<close> the components still to create or to find as directories.
\<close>

fun mkdir_parents :: "('m, 'f) fs \<Rightarrow> path \<Rightarrow> path \<Rightarrow> exn + ('m, 'f) fs" where
  "mkdir_parents fs pre [] = Inr fs"
| "mkdir_parents fs pre (c # cs) =
     (case fs (pre @ [c]) of
        None \<Rightarrow> mkdir_parents (fs(pre @ [c] \<mapsto> Dir)) (pre @ [c]) cs
      | Some Dir \<Rightarrow> mkdir_parents fs (pre @ [c]) cs
      | Some _ \<Rightarrow>
          (if cs = [] then Inl (FileExistsError ''File exists'')
           else Inl (NotADirectoryError ''Not a directory'')))"

text \<open>Opening \<open>p\<close> for writing and writing \<open>c\<close>: creates or overwrites the file.\<close>

definition write_file :: "('m, 'f) fs \<Rightarrow> path \<Rightarrow> ('m, 'f) node \<Rightarrow> exn + ('m, 'f) fs" where
  "write_file fs p c =
     (case fs p of
        Some Dir \<Rightarrow> Inl (IsADirectoryError ''Is a directory'')
      | _ \<Rightarrow>
         (if butlast p = [] then Inr (fs(p \<mapsto> c))
          else case fs (butlast p) of
                 Some Dir \<Rightarrow> Inr (fs(p \<mapsto> c))
               | None \<Rightarrow> Inl (FileNotFoundError ''No such file or directory'')
               | Some _ \<Rightarrow> Inl (NotADirectoryError ''Not a directory'')))"

text \<open>\<^verbatim>\<open>save_artifacts(model, feature_names, out_dir)\<close> of \<^verbatim>\<open>train_model.py\<close>.\<close>

definition save_artifacts ::
  "('m, 'f) fs \<Rightarrow> 'm \<Rightarrow> string list \<Rightarrow> path \<Rightarrow> exn + ('m, 'f) fs" where
  "save_artifacts fs model feature_names out =
     and_then (mkdir_parents fs [] out) (\<lambda>fs1.
     and_then (write_file fs1 (out @ [''model.joblib'']) (ModelFile model)) (\<lambda>fs2.
       write_file fs2 (out @ [''features.json''])
         (JsonFile (JObj [(''feature_order'', JList (map JStr feature_names))]))))"

text \<open>The startup code of \<^verbatim>\<open>app.py\<close>.\<close>

definition ARTIFACTS_DIR :: path where
  "ARTIFACTS_DIR = []"

definition MODEL_PATH :: path where
  "MODEL_PATH = ARTIFACTS_DIR @ [''model.joblib'']"

definition FEATURES_PATH :: path where
  "FEATURES_PATH = ARTIFACTS_DIR @ [''features.json'']"

definition joblib_load :: "('m, 'f) fs \<Rightarrow> path \<Rightarrow> exn + 'm" where
  "joblib_load fs p =
     (case fs p of
        Some (ModelFile m) \<Rightarrow> Inr m
      | Some (JsonFile j) \<Rightarrow> Inl (OtherException ''invalid load key'')
      | Some Dir \<Rightarrow> Inl (IsADirectoryError ''Is a directory'')
      | None \<Rightarrow> Inl (FileNotFoundError ''No such file or directory''))"

definition json_load :: "('m, 'f) fs \<Rightarrow> path \<Rightarrow> exn + 'f json" where
  "json_load fs p =
     (case fs p of
        Some (JsonFile j) \<Rightarrow> Inr j
      | Some (ModelFile m) \<Rightarrow> Inl (ValueError ''invalid JSON document'')
      | Some Dir \<Rightarrow> Inl (IsADirectoryError ''Is a directory'')
      | None \<Rightarrow> Inl (FileNotFoundError ''No such file or directory''))"

definition msg_artifacts_not_found :: string where
  "msg_artifacts_not_found =
     ''Artifacts not found (model.joblib / features.json). Run first: python train_model.py''"

text \<open>
  \<^verbatim>\<open>json.load(f)["feature_order"]\<close>, the read that gives \<^verbatim>\<open>FEATURE_ORDER\<close>. The text of
  the \<^verbatim>\<open>KeyError\<close> is \<^verbatim>\<open>repr\<close> of the key.
\<close>

definition read_feature_order :: "'f json \<Rightarrow> exn + 'f json" where
  "read_feature_order doc =
     (case doc of
        JObj kvs \<Rightarrow>
          (case map_of kvs ''feature_order'' of
             None \<Rightarrow> Inl (KeyError ([CHR 0x27] @ ''feature_order'' @ [CHR 0x27]))
           | Some v \<Rightarrow> Inr v)
      | JList xs \<Rightarrow> Inl (TypeError ''list indices must be integers or slices, not str'')
      | JStr s \<Rightarrow> Inl (TypeError ''string indices must be integers'')
      | _ \<Rightarrow> Inl (TypeError ''object is not subscriptable''))"

text \<open>The values of \<^verbatim>\<open>MODEL\<close> and \<^verbatim>\<open>FEATURE_ORDER\<close> after startup, or the exception.\<close>

definition load_artifacts :: "('m, 'f) fs \<Rightarrow> exn + ('m \<times> 'f json)" where
  "load_artifacts fs =
     (if fs MODEL_PATH = None \<or> fs FEATURES_PATH = None
      then Inl (FileNotFoundError msg_artifacts_not_found)
      else
        and_then (joblib_load fs MODEL_PATH) (\<lambda>model.
        and_then (json_load fs FEATURES_PATH) (\<lambda>doc.
        and_then (read_feature_order doc) (\<lambda>feature_order.
          Inr (model, feature_order)))))"

section \<open>Sample values\<close>

text \<open>
  Concrete values on which the theorems below are evaluated. \<open>pyfloat\<close> names the float
  values the examples need: \<open>Fin q\<close> is the double nearest to the rational \<open>q\<close>.
  \<open>sample_float\<close> agrees with Python's \<^verbatim>\<open>float\<close> on the values the examples use (a
  \<^verbatim>\<open>float\<close>, a small \<^verbatim>\<open>int\<close>, a \<^verbatim>\<open>bool\<close>, the strings \<^verbatim>\<open>"13.2"\<close>, \<^verbatim>\<open>"nan"\<close>, \<^verbatim>\<open>"inf"\<close>,
  \<^verbatim>\<open>"abc"\<close>, \<^verbatim>\<open>None\<close>, a list, a dict) and \<open>sample_repr\<close> agrees with \<^verbatim>\<open>repr\<close> on
  the feature names used.
\<close>

datatype pyfloat = Fin rat | NaN | PosInf | NegInf

fun sample_float :: "pyfloat json \<Rightarrow> pyfloat option" where
  "sample_float (JFloat x) = Some x"
| "sample_float (JInt i) = Some (Fin (of_int i))"
| "sample_float (JBool b) = Some (Fin (if b then 1 else 0))"
| "sample_float (JStr s) =
     (if s = ''13.2'' then Some (Fin (132 / 10))
      else if s = ''nan'' then Some NaN
      else if s = ''inf'' then Some PosInf
      else None)"
| "sample_float JNull = None"
| "sample_float (JList xs) = None"
| "sample_float (JObj kvs) = None"

definition sample_repr :: "string \<Rightarrow> string" where
  "sample_repr s = [CHR 0x27] @ s @ [CHR 0x27]"

text \<open>A pipeline that predicts class 1 for every row and has \<^verbatim>\<open>predict_proba\<close>.\<close>

definition sample_pipeline :: "pyfloat pipeline" where
  "sample_pipeline =
     \<lparr> pipeline_predict = (\<lambda>X. Inr (map (\<lambda>r. 1) X)),
       pipeline_predict_proba = Some (\<lambda>X. Inr (map (\<lambda>r. [Fin 0, Fin 1, Fin 0]) X)) \<rparr>"

text \<open>The same without \<^verbatim>\<open>predict_proba\<close>.\<close>

definition sample_pipeline_no_proba :: "pyfloat pipeline" where
  "sample_pipeline_no_proba =
     \<lparr> pipeline_predict = (\<lambda>X. Inr (map (\<lambda>r. 1) X)),
       pipeline_predict_proba = None \<rparr>"

text \<open>A pipeline whose input check raises \<^verbatim>\<open>ValueError\<close> on an infinite entry.\<close>

definition sample_pipeline_finite_check :: "pyfloat pipeline" where
  "sample_pipeline_finite_check =
     \<lparr> pipeline_predict =
         (\<lambda>X. if \<exists>r\<in>set X. PosInf \<in> set r \<or> NegInf \<in> set r
               then Inl (ValueError ''Input X contains infinity or a value too large.'')
               else Inr (map (\<lambda>r. 1) X)),
       pipeline_predict_proba = None \<rparr>"

text \<open>A pipeline fitted on other labels: it predicts class id 3 for every row.\<close>

definition sample_pipeline_mismatched :: "pyfloat pipeline" where
  "sample_pipeline_mismatched =
     \<lparr> pipeline_predict = (\<lambda>X. Inr (map (\<lambda>r. 3) X)),
       pipeline_predict_proba = None \<rparr>"

definition sample_env :: "pyfloat pipeline \<Rightarrow> pyfloat env" where
  "sample_env P =
     \<lparr> py_float = sample_float,
       py_repr = sample_repr,
       FEATURE_ORDER = [''alcohol'', ''malic_acid''],
       CLASS_NAMES = [''class_0'', ''class_1'', ''class_2''],
       MODEL = P \<rparr>"

section \<open>Properties of the validation\<close>

lemma str_nat_digit: "n < 10 \<Longrightarrow> str_nat n = [digit_char n]"
  by (simp add: str_nat.simps)

lemma digit_char_value: "n < 10 \<Longrightarrow> of_char (digit_char n) = 48 + n"
proof -
  assume "n < 10"
  then consider "n = 0" | "n = 1" | "n = 2" | "n = 3" | "n = 4"
    | "n = 5" | "n = 6" | "n = 7" | "n = 8" | "n = 9"
    by (auto simp: less_Suc_eq numeral_eq_Suc)
  then show ?thesis by cases (simp_all add: digit_char_def)
qed

lemma digit_char_digit: "n < 10 \<Longrightarrow> digit_char n \<in> set ''0123456789''"
  unfolding digit_char_def by (rule nth_mem) simp

lemma decimal_value_snoc:
  "decimal_value (ds @ [c]) = 10 * decimal_value ds + (of_char c - 48)"
  by (simp add: decimal_value_def)

lemma str_nat_decimal:
  "decimal_value (str_nat n) = n \<and> str_nat n \<noteq> [] \<and> set (str_nat n) \<subseteq> set ''0123456789''"
proof (induction n rule: str_nat.induct)
  case (1 n)
  show ?case
  proof (cases "n < 10")
    case True
    then have "str_nat n = [digit_char n]" by (simp add: str_nat.simps)
    moreover have "decimal_value [digit_char n] = n"
      using True by (simp add: decimal_value_def digit_char_value)
    ultimately show ?thesis using digit_char_digit[OF True] by simp
  next
    case False
    then have eq: "str_nat n = str_nat (n div 10) @ [digit_char (n mod 10)]"
      by (subst str_nat.simps) simp
    have m: "n mod 10 < 10" by simp
    from "1.IH"[OF False] have ih: "decimal_value (str_nat (n div 10)) = n div 10"
      "set (str_nat (n div 10)) \<subseteq> set ''0123456789''"
      by simp_all
    have "decimal_value (str_nat n) = 10 * (n div 10) + n mod 10"
      unfolding eq decimal_value_snoc using ih(1) digit_char_value[OF m] by simp
    then have "decimal_value (str_nat n) = n" by simp
    moreover have "set (str_nat n) \<subseteq> set ''0123456789''"
      unfolding eq using ih(2) digit_char_digit[OF m] by simp
    ultimately show ?thesis using eq by simp
  qed
qed

lemma join_comma_eq:
  "join_comma (s # ss) = s @ concat (map (\<lambda>t. '', '' @ t) ss)"
  by (induction ss arbitrary: s) simp_all

lemma msg_missing_text:
  assumes "missing \<noteq> []"
  shows "msg_missing E idx missing
           = ''Missing features in instance '' @ str_nat idx @ '': ['' @ py_repr E (hd missing)
               @ concat (map (\<lambda>f. '', '' @ py_repr E f) (tl missing)) @ '']''"
proof -
  from assms obtain f fs where "missing = f # fs" by (cases missing) auto
  then show ?thesis
    by (simp add: msg_missing_def str_list_def join_comma_eq comp_def)
qed

lemma msg_not_numeric_text:
  "msg_not_numeric f idx
     = ''Value of '' @ [CHR 0x27] @ f @ [CHR 0x27] @ '' in instance '' @ str_nat idx
         @ '' is not numeric.''"
  by (simp add: msg_not_numeric_def)

lemma values_loop_all_coerce:
  "\<forall>f\<in>set fs. \<exists>v x. map_of row f = Some v \<and> py_float E v = Some x \<Longrightarrow>
   values_loop E idx row fs acc
     = Inr (acc @ map (\<lambda>f. the (py_float E (the (map_of row f)))) fs)"
  by (induction fs arbitrary: acc) auto

lemma values_loop_agree:
  "\<forall>f\<in>set fs. map_of row' f = map_of row f \<Longrightarrow>
   values_loop E idx row' fs acc = values_loop E idx row fs acc"
  by (induction fs arbitrary: acc) (auto split: option.splits)

lemma values_loop_cases:
  "\<forall>f\<in>set fs. map_of row f \<noteq> None \<Longrightarrow>
   (\<exists>vs. values_loop E idx row fs acc = Inr vs) \<or>
   (\<exists>f\<in>set fs. values_loop E idx row fs acc = Inl (ValueError (msg_not_numeric f idx)))"
  by (induction fs arbitrary: acc) (auto split: option.splits)

lemma missing_empty_iff:
  "filter (\<lambda>f. f \<notin> set (map fst kvs)) fs = [] \<longleftrightarrow> (\<forall>f\<in>set fs. map_of kvs f \<noteq> None)"
  by (auto simp: filter_empty_conv map_of_eq_None_iff)

lemma check_row_agree:
  assumes "\<forall>f\<in>set (FEATURE_ORDER E). map_of row' f = map_of row f"
  shows "check_row E idx (JObj row') = check_row E idx (JObj row)"
proof -
  have "filter (\<lambda>f. f \<notin> set (map fst row')) (FEATURE_ORDER E)
      = filter (\<lambda>f. f \<notin> set (map fst row)) (FEATURE_ORDER E)"
    using assms by (intro filter_cong) (auto simp: map_of_eq_None_iff[symmetric])
  with assms show ?thesis
    by (simp add: check_row_def Let_def values_loop_agree)
qed

lemma check_row_all_coerce:
  assumes "\<forall>f\<in>set (FEATURE_ORDER E). \<exists>v x. map_of kvs f = Some v \<and> py_float E v = Some x"
  shows "check_row E idx (JObj kvs)
           = Inr (map (\<lambda>f. the (py_float E (the (map_of kvs f)))) (FEATURE_ORDER E))"
proof -
  have "filter (\<lambda>f. f \<notin> set (map fst kvs)) (FEATURE_ORDER E) = []"
    using assms unfolding missing_empty_iff by auto
  with assms show ?thesis
    by (simp add: check_row_def values_loop_all_coerce)
qed

lemma check_row_cases:
  "(\<exists>vs. check_row E idx row = Inr vs) \<or> (\<exists>m. check_row E idx row = Inl (ValueError m))"
proof (cases row)
  case (JObj kvs)
  show ?thesis
  proof (cases "filter (\<lambda>f. f \<notin> set (map fst kvs)) (FEATURE_ORDER E) = []")
    case True
    then have "\<forall>f\<in>set (FEATURE_ORDER E). map_of kvs f \<noteq> None"
      by (simp only: missing_empty_iff)
    from values_loop_cases[OF this, of E idx "[]"] True JObj show ?thesis
      by (auto simp: check_row_def)
  next
    case False
    with JObj show ?thesis by (simp add: check_row_def)
  qed
qed (simp_all add: check_row_def)

lemma rows_loop_all_valid:
  "\<forall>i<length pre. check_row E (idx + i) (pre ! i) = Inr (vals ! i) \<Longrightarrow> length vals = length pre \<Longrightarrow>
   rows_loop E idx (pre @ rest) acc = rows_loop E (idx + length pre) rest (acc @ vals)"
proof (induction pre arbitrary: idx acc vals)
  case Nil
  then show ?case by simp
next
  case (Cons r pre)
  then obtain v vs where vals: "vals = v # vs" by (cases vals) auto
  from Cons.prems(1) vals have r: "check_row E idx r = Inr v" by force
  have "\<forall>i<length pre. check_row E (Suc idx + i) (pre ! i) = Inr (vs ! i)"
    using Cons.prems(1) vals by force
  from Cons.IH[OF this, of "acc @ [v]"] Cons.prems(2) vals r show ?case by simp
qed

lemma rows_loop_stops:
  assumes "\<forall>i<length pre. \<exists>vs. check_row E (idx + i) (pre ! i) = Inr vs"
      and "check_row E (idx + length pre) bad = Inl e"
  shows "rows_loop E idx (pre @ bad # post) acc = Inl e"
proof -
  define vals where "vals = map (\<lambda>i. projr (check_row E (idx + i) (pre ! i))) [0..<length pre]"
  have "\<forall>i<length pre. check_row E (idx + i) (pre ! i) = Inr (vals ! i)"
    using assms(1) by (auto simp: vals_def)
  moreover have "length vals = length pre" by (simp add: vals_def)
  ultimately have "rows_loop E idx (pre @ bad # post) acc
      = rows_loop E (idx + length pre) (bad # post) (acc @ vals)"
    by (rule rows_loop_all_valid)
  with assms(2) show ?thesis by simp
qed

lemma rows_loop_all_coerce:
  assumes "\<forall>kvs\<in>set rows. \<forall>f\<in>set (FEATURE_ORDER E).
             \<exists>v x. map_of kvs f = Some v \<and> py_float E v = Some x"
  shows "rows_loop E idx (map JObj rows) acc
           = Inr (acc @ map (\<lambda>kvs. map (\<lambda>f. the (py_float E (the (map_of kvs f))))
                                    (FEATURE_ORDER E)) rows)"
  using assms
proof (induction rows arbitrary: idx acc)
  case Nil
  then show ?case by simp
next
  case (Cons kvs rows)
  from Cons.prems have "check_row E idx (JObj kvs)
      = Inr (map (\<lambda>f. the (py_float E (the (map_of kvs f)))) (FEATURE_ORDER E))"
    by (intro check_row_all_coerce) simp
  moreover from Cons.prems have "rows_loop E (Suc idx) (map JObj rows) (acc @ [map (\<lambda>f. the (py_float E (the (map_of kvs f)))) (FEATURE_ORDER E)])
     = Inr ((acc @ [map (\<lambda>f. the (py_float E (the (map_of kvs f)))) (FEATURE_ORDER E)]) @ map (\<lambda>kvs. map (\<lambda>f. the (py_float E (the (map_of kvs f))))
                                    (FEATURE_ORDER E)) rows)"
    by (intro Cons.IH) simp
  ultimately show ?case by simp
qed

lemma rows_loop_agree:
  assumes "length rows' = length rows"
      and "\<forall>i<length rows. \<forall>f\<in>set (FEATURE_ORDER E). map_of (rows' ! i) f = map_of (rows ! i) f"
  shows "rows_loop E idx (map JObj rows') acc = rows_loop E idx (map JObj rows) acc"
  using assms
proof (induction rows arbitrary: rows' idx acc)
  case Nil
  then show ?case by simp
next
  case (Cons r rows)
  then obtain r' rest' where rows': "rows' = r' # rest'" by (cases rows') auto
  from Cons.prems(2) rows' have "\<forall>f\<in>set (FEATURE_ORDER E). map_of r' f = map_of r f"
    by force
  then have head: "check_row E idx (JObj r') = check_row E idx (JObj r)"
    by (rule check_row_agree)
  have "\<forall>i<length rows. \<forall>f\<in>set (FEATURE_ORDER E). map_of (rest' ! i) f = map_of (rows ! i) f"
    using Cons.prems(2) rows' by force
  with Cons.IH[of rest'] Cons.prems(1) rows'
  have "\<And>idx acc. rows_loop E idx (map JObj rest') acc = rows_loop E idx (map JObj rows) acc"
    by simp
  with head rows' show ?case by (simp split: sum.splits)
qed

lemma validate_rows:
  "rows \<noteq> [] \<Longrightarrow> validate_and_build_matrix E (JList rows) = rows_loop E 0 rows []"
  by (simp add: validate_and_build_matrix_def)

section \<open>Validation and the feature matrix\<close>

text \<open>
  C2. For a non-empty batch in which every record holds every Feature Schema name with a
  value that \<^verbatim>\<open>float\<close> accepts, \<open>validate_and_build_matrix\<close> returns a matrix with
  one row per record and one column per schema feature; the entry at row \<open>i\<close>, column
  \<open>j\<close> is the coercion of record \<open>i\<close>'s value for the \<open>j\<close>-th schema feature. Listing
  the same key-value pairs of the records in another order gives the same matrix.
\<close>

theorem build_matrix_well_formed:
  assumes "rows \<noteq> []"
      and "\<forall>kvs\<in>set rows. \<forall>f\<in>set (FEATURE_ORDER E).
             \<exists>v x. map_of kvs f = Some v \<and> py_float E v = Some x"
  shows "\<exists>X. validate_and_build_matrix E (JList (map JObj rows)) = Inr X
           \<and> length X = length rows
           \<and> (\<forall>i<length rows.
                length (X ! i) = length (FEATURE_ORDER E)
                \<and> (\<forall>j<length (FEATURE_ORDER E).
                      \<exists>v. map_of (rows ! i) (FEATURE_ORDER E ! j) = Some v
                         \<and> py_float E v = Some (X ! i ! j)))
           \<and> (\<forall>rows'. length rows' = length rows
                  \<and> (\<forall>i<length rows. distinct (map fst (rows ! i))
                        \<and> distinct (map fst (rows' ! i))
                        \<and> set (rows' ! i) = set (rows ! i))
                \<longrightarrow> validate_and_build_matrix E (JList (map JObj rows')) = Inr X)"
proof -
  define X where
    "X = map (\<lambda>kvs. map (\<lambda>f. the (py_float E (the (map_of kvs f)))) (FEATURE_ORDER E)) rows"
  have res: "validate_and_build_matrix E (JList (map JObj rows)) = Inr X"
    using assms(1) rows_loop_all_coerce[OF assms(2), of 0 "[]"]
    by (simp add: validate_rows X_def)
  have len: "length X = length rows"
    by (simp add: X_def)
  have entries: "\<forall>i<length rows.
      length (X ! i) = length (FEATURE_ORDER E)
      \<and> (\<forall>j<length (FEATURE_ORDER E).
            \<exists>v. map_of (rows ! i) (FEATURE_ORDER E ! j) = Some v
               \<and> py_float E v = Some (X ! i ! j))"
  proof (intro allI impI conjI)
    fix i assume "i < length rows"
    then show "length (X ! i) = length (FEATURE_ORDER E)" by (simp add: X_def)
  next
    fix i j assume i: "i < length rows" and j: "j < length (FEATURE_ORDER E)"
    from i have "rows ! i \<in> set rows" by simp
    moreover from j have "FEATURE_ORDER E ! j \<in> set (FEATURE_ORDER E)" by simp
    ultimately obtain v x where
      "map_of (rows ! i) (FEATURE_ORDER E ! j) = Some v" "py_float E v = Some x"
      using assms(2) by blast
    with i j show "\<exists>v. map_of (rows ! i) (FEATURE_ORDER E ! j) = Some v
                     \<and> py_float E v = Some (X ! i ! j)"
      by (simp add: X_def)
  qed
  have order: "\<forall>rows'. length rows' = length rows
        \<and> (\<forall>i<length rows. distinct (map fst (rows ! i))
              \<and> distinct (map fst (rows' ! i))
              \<and> set (rows' ! i) = set (rows ! i))
      \<longrightarrow> validate_and_build_matrix E (JList (map JObj rows')) = Inr X"
  proof (intro allI impI)
    fix rows'
    assume h: "length rows' = length rows
        \<and> (\<forall>i<length rows. distinct (map fst (rows ! i))
              \<and> distinct (map fst (rows' ! i))
              \<and> set (rows' ! i) = set (rows ! i))"
    then have "\<forall>i<length rows. map_of (rows' ! i) = map_of (rows ! i)"
      by (simp add: map_of_inject_set)
    then have "rows_loop E 0 (map JObj rows') [] = rows_loop E 0 (map JObj rows) []"
      using h by (intro rows_loop_agree) simp_all
    moreover from h assms(1) have "rows' \<noteq> []" by auto
    ultimately show "validate_and_build_matrix E (JList (map JObj rows')) = Inr X"
      using res assms(1) by (simp add: validate_rows)
  qed
  from res len entries order show ?thesis by blast
qed

theorem build_matrix_well_formed_witness:
  "[[(''malic_acid'', JFloat (Fin 2)), (''alcohol'', JStr ''13.2'')],
    [(''alcohol'', JInt 12), (''malic_acid'', JBool True)]] \<noteq> []
   \<and> validate_and_build_matrix (sample_env sample_pipeline)
        (JList (map JObj [[(''malic_acid'', JFloat (Fin 2)), (''alcohol'', JStr ''13.2'')],
                          [(''alcohol'', JInt 12), (''malic_acid'', JBool True)]]))
       = Inr [[Fin (132 / 10), Fin 2], [Fin 12, Fin 1]]"
proof -
  let ?rows = "[[(''malic_acid'', JFloat (Fin 2)), (''alcohol'', JStr ''13.2'')],
                [(''alcohol'', JInt 12), (''malic_acid'', JBool True)]]"
  let ?E = "sample_env sample_pipeline"
  have h1: "?rows \<noteq> []" by simp
  have h2: "\<forall>kvs\<in>set ?rows. \<forall>f\<in>set (FEATURE_ORDER ?E).
              \<exists>v x. map_of kvs f = Some v \<and> py_float ?E v = Some x"
    by (simp add: sample_env_def)
  from build_matrix_well_formed[OF h1 h2]
  obtain X where X: "validate_and_build_matrix ?E (JList (map JObj ?rows)) = Inr X"
    and len: "length X = length ?rows"
    and ent: "\<forall>i<length ?rows.
                length (X ! i) = length (FEATURE_ORDER ?E)
                \<and> (\<forall>j<length (FEATURE_ORDER ?E).
                      \<exists>v. map_of (?rows ! i) (FEATURE_ORDER ?E ! j) = Some v
                         \<and> py_float ?E v = Some (X ! i ! j))"
    by blast
  have "X = [[Fin (132 / 10), Fin 2], [Fin 12, Fin 1]]"
    using X by (simp add: validate_and_build_matrix_def check_row_def sample_env_def)
  with X h1 show ?thesis by blast
qed

lemma values_loop_complete:
  "\<forall>f\<in>set fs. map_of row f \<noteq> None \<Longrightarrow>
   values_loop E idx row fs acc =
     (case filter (\<lambda>f. py_float E (the (map_of row f)) = None) fs of
        [] \<Rightarrow> Inr (acc @ map (\<lambda>f. the (py_float E (the (map_of row f)))) fs)
      | f # _ \<Rightarrow> Inl (ValueError (msg_not_numeric f idx)))"
  by (induction fs arbitrary: acc) (auto split: list.splits)

lemma check_row_complete:
  assumes "\<forall>f\<in>set (FEATURE_ORDER E). map_of kvs f \<noteq> None"
  shows "check_row E idx (JObj kvs) =
     (case filter (\<lambda>f. py_float E (the (map_of kvs f)) = None) (FEATURE_ORDER E) of
        [] \<Rightarrow> Inr (map (\<lambda>f. the (py_float E (the (map_of kvs f)))) (FEATURE_ORDER E))
      | f # _ \<Rightarrow> Inl (ValueError (msg_not_numeric f idx)))"
proof -
  have "filter (\<lambda>f. f \<notin> set (map fst kvs)) (FEATURE_ORDER E) = []"
    using assms by (simp only: missing_empty_iff)
  then show ?thesis
    using values_loop_complete[OF assms, of E idx "[]"] by (simp add: check_row_def split: list.splits)
qed

lemma check_row_missing:
  assumes "\<exists>f\<in>set (FEATURE_ORDER E). f \<notin> fst ` set kvs"
  shows "check_row E idx (JObj kvs)
           = Inl (ValueError (msg_missing E idx
                    (filter (\<lambda>f. f \<notin> fst ` set kvs) (FEATURE_ORDER E))))"
proof -
  have "filter (\<lambda>f. f \<notin> fst ` set kvs) (FEATURE_ORDER E) \<noteq> []"
    using assms by (simp add: filter_empty_conv)
  then show ?thesis by (simp add: check_row_def)
qed

lemma rows_loop_fails:
  assumes "r \<in> set rows" and "\<forall>i. \<exists>m. check_row E i r = Inl (ValueError m)"
  shows "\<exists>m. rows_loop E idx rows acc = Inl (ValueError m)"
  using assms(1)
proof (induction rows arbitrary: idx acc)
  case Nil
  then show ?case by simp
next
  case (Cons a rows)
  consider vs where "check_row E idx a = Inr vs" | m where "check_row E idx a = Inl (ValueError m)"
    using check_row_cases[of E idx a] by blast
  then show ?case
  proof cases
    case 1
    with assms(2) have "a \<noteq> r" by (metis Inl_Inr_False)
    with Cons.prems have "r \<in> set rows" by simp
    from Cons.IH[OF this] 1 show ?thesis by simp
  next
    case 2
    then show ?thesis by simp
  qed
qed

lemma validate_fails:
  assumes "\<forall>i. \<exists>m. check_row E i r = Inl (ValueError m)"
  shows "\<exists>m. validate_and_build_matrix E (JList (pre @ r # post)) = Inl (ValueError m)"
  using rows_loop_fails[OF _ assms, of "pre @ r # post" 0 "[]"]
  by (simp add: validate_and_build_matrix_def)

lemma validate_stops:
  assumes "\<forall>i<length pre. \<exists>vs. check_row E i (pre ! i) = Inr vs"
      and "check_row E (length pre) bad = Inl e"
  shows "validate_and_build_matrix E (JList (pre @ bad # post)) = Inl e"
  using rows_loop_stops[of pre E 0 bad e post "[]"] assms
  by (simp add: validate_and_build_matrix_def)


text \<open>
  C3, as stated, fails: a record that lacks schema features is not the record the error
  names when an earlier record of the batch is invalid. Here the record at position 1
  lacks both features and the error names position 0 and no missing feature.
\<close>

theorem missing_features_position_counterexample:
  "validate_and_build_matrix (sample_env sample_pipeline) (JList [JInt 5, JObj []])
     = Inl (ValueError ''Instance at position 0 is not a valid JSON object.'')"
  by (simp add: validate_and_build_matrix_def check_row_def msg_not_object_def
      str_nat_digit digit_char_def)

text \<open>
  C3, amended. A record that is a flat mapping and lacks at least one Feature Schema name
  makes validation fail, whatever the other records of the batch are. When every record
  before it is valid, the error message is \<^verbatim>\<open>Missing features in instance \<close>, the decimal
  digits of the record's 0-indexed position, \<^verbatim>\<open>: \<close> and the bracketed, comma-separated
  \<^verbatim>\<open>repr\<close> of the missing features, which are exactly the schema features absent from
  the record, in schema order.
\<close>

theorem missing_features_reported:
  assumes "\<forall>i<length pre. \<exists>vs. check_row E i (pre ! i) = Inr vs"
      and "\<exists>f\<in>set (FEATURE_ORDER E). f \<notin> fst ` set kvs"
  shows "\<exists>ds missing.
           validate_and_build_matrix E (JList (pre @ JObj kvs # post))
             = Inl (ValueError (''Missing features in instance '' @ ds @ '': [''
                      @ py_repr E (hd missing)
                      @ concat (map (\<lambda>f. '', '' @ py_repr E f) (tl missing)) @ '']''))
         \<and> ds \<noteq> [] \<and> set ds \<subseteq> set ''0123456789'' \<and> decimal_value ds = length pre
         \<and> missing = filter (\<lambda>f. f \<notin> fst ` set kvs) (FEATURE_ORDER E)
         \<and> missing \<noteq> []
         \<and> set missing = set (FEATURE_ORDER E) - fst ` set kvs
         \<and> (\<forall>pre' post'. \<exists>m.
               validate_and_build_matrix E (JList (pre' @ JObj kvs # post')) = Inl (ValueError m))"
proof -
  define missing where "missing = filter (\<lambda>f. f \<notin> fst ` set kvs) (FEATURE_ORDER E)"
  have ne: "missing \<noteq> []"
    using assms(2) by (simp add: missing_def filter_empty_conv)
  have row: "check_row E i (JObj kvs) = Inl (ValueError (msg_missing E i missing))" for i
    using check_row_missing[OF assms(2), of i] by (simp add: missing_def)
  have "validate_and_build_matrix E (JList (pre @ JObj kvs # post))
      = Inl (ValueError (msg_missing E (length pre) missing))"
    using assms(1) row by (rule validate_stops)
  then have res: "validate_and_build_matrix E (JList (pre @ JObj kvs # post))
      = Inl (ValueError (''Missing features in instance '' @ str_nat (length pre) @ '': [''
               @ py_repr E (hd missing)
               @ concat (map (\<lambda>f. '', '' @ py_repr E f) (tl missing)) @ '']''))"
    by (simp only: msg_missing_text[OF ne])
  have digits: "str_nat (length pre) \<noteq> []" "set (str_nat (length pre)) \<subseteq> set ''0123456789''"
    "decimal_value (str_nat (length pre)) = length pre"
    using str_nat_decimal[of "length pre"] by simp_all
  have exact: "set missing = set (FEATURE_ORDER E) - fst ` set kvs"
    by (auto simp: missing_def)
  have fails: "\<forall>pre' post'. \<exists>m.
      validate_and_build_matrix E (JList (pre' @ JObj kvs # post')) = Inl (ValueError m)"
  proof (intro allI)
    fix pre' post'
    have "\<forall>i. \<exists>m. check_row E i (JObj kvs) = Inl (ValueError m)"
      using row by blast
    then show "\<exists>m. validate_and_build_matrix E (JList (pre' @ JObj kvs # post'))
        = Inl (ValueError m)"
      by (rule validate_fails)
  qed
  show ?thesis
    apply (rule exI[of _ "str_nat (length pre)"])
    apply (rule exI[of _ missing])
    apply (intro conjI)
           apply (rule res)
          apply (rule digits(1))
         apply (rule digits(2))
        apply (rule digits(3))
       apply (rule missing_def)
      apply (rule ne)
     apply (rule exact)
    apply (rule fails)
    done
qed

theorem missing_features_reported_witness:
  "validate_and_build_matrix (sample_env sample_pipeline)
     (JList ([JObj [(''malic_acid'', JFloat (Fin 2)), (''alcohol'', JStr ''13.2'')]]
             @ JObj [(''color'', JStr ''red'')]
             # [JObj []]))
   = Inl (ValueError ''Missing features in instance 1: ['alcohol', 'malic_acid']'')"
proof -
  let ?E = "sample_env sample_pipeline"
  let ?pre = "[JObj [(''malic_acid'', JFloat (Fin 2)), (''alcohol'', JStr ''13.2'')]]"
  let ?kvs = "[(''color'', JStr ''red'')]"
  have h1: "\<forall>i<length ?pre. \<exists>vs. check_row ?E i (?pre ! i) = Inr vs"
    by (simp add: check_row_def sample_env_def)
  have h2: "\<exists>f\<in>set (FEATURE_ORDER ?E). f \<notin> fst ` set ?kvs"
    by (simp add: sample_env_def)
  from missing_features_reported[OF h1 h2, of "[JObj []]"]
  obtain m where "validate_and_build_matrix ?E (JList (?pre @ JObj ?kvs # [JObj []]))
      = Inl (ValueError m)"
    by (elim exE conjE) (rule that, assumption)
  then show ?thesis
    by (simp add: validate_and_build_matrix_def check_row_def msg_missing_def str_list_def
        sample_env_def sample_repr_def str_nat_digit digit_char_def)
qed

text \<open>
  C4, as stated, fails in two ways. When an earlier record is invalid, the error names
  that record and not the one with the non-coercible value. When two schema features of
  one record have non-coercible values, the error names only the first of them in schema
  order: here \<^verbatim>\<open>malic_acid\<close> holds null and is not named.
\<close>

theorem non_numeric_naming_counterexample:
  "validate_and_build_matrix (sample_env sample_pipeline)
       (JList [JInt 5, JObj [(''alcohol'', JStr ''abc''), (''malic_acid'', JFloat (Fin 2))]])
     = Inl (ValueError ''Instance at position 0 is not a valid JSON object.'')
   \<and> py_float (sample_env sample_pipeline) JNull = None
   \<and> validate_and_build_matrix (sample_env sample_pipeline)
       (JList [JObj [(''alcohol'', JStr ''abc''), (''malic_acid'', JNull)]])
     = Inl (ValueError ''Value of 'alcohol' in instance 0 is not numeric.'')"
  by (simp add: validate_and_build_matrix_def check_row_def msg_not_object_def
      msg_not_numeric_def sample_env_def str_nat_digit digit_char_def)

text \<open>
  C4, amended. A record that holds every Feature Schema name and in which the value of
  some schema feature is not accepted by \<^verbatim>\<open>float\<close> makes validation fail, whatever the
  other records of the batch are. When every record before it is valid, the error
  message is \<^verbatim>\<open>Value of '\<close>, the first feature in schema order whose value is not
  accepted, \<^verbatim>\<open>' in instance \<close>, the decimal digits of the record's 0-indexed position
  and \<^verbatim>\<open> is not numeric.\<close>
\<close>

theorem non_numeric_reported:
  assumes "\<forall>i<length pre. \<exists>vs. check_row E i (pre ! i) = Inr vs"
      and "\<forall>f\<in>set (FEATURE_ORDER E). f \<in> fst ` set kvs"
      and "\<exists>f\<in>set (FEATURE_ORDER E). py_float E (the (map_of kvs f)) = None"
  shows "\<exists>good f rest ds.
           FEATURE_ORDER E = good @ f # rest
           \<and> (\<forall>g\<in>set good. py_float E (the (map_of kvs g)) \<noteq> None)
           \<and> py_float E (the (map_of kvs f)) = None
           \<and> validate_and_build_matrix E (JList (pre @ JObj kvs # post))
               = Inl (ValueError (''Value of '' @ [CHR 0x27] @ f @ [CHR 0x27]
                        @ '' in instance '' @ ds @ '' is not numeric.''))
           \<and> ds \<noteq> [] \<and> set ds \<subseteq> set ''0123456789'' \<and> decimal_value ds = length pre
           \<and> (\<forall>pre' post'. \<exists>m.
                 validate_and_build_matrix E (JList (pre' @ JObj kvs # post'))
                   = Inl (ValueError m))"
proof -
  let ?bad = "\<lambda>f. py_float E (the (map_of kvs f)) = None"
  from assms(3) obtain good f rest where split:
    "FEATURE_ORDER E = good @ f # rest" "?bad f" "\<forall>g\<in>set good. \<not> ?bad g"
    using split_list_first_prop[of "FEATURE_ORDER E" ?bad] by blast
  then have flt: "filter ?bad (FEATURE_ORDER E) = f # filter ?bad rest"
    by simp
  have complete: "\<forall>f\<in>set (FEATURE_ORDER E). map_of kvs f \<noteq> None"
    using assms(2) by (simp add: map_of_eq_None_iff)
  have row: "check_row E i (JObj kvs) = Inl (ValueError (msg_not_numeric f i))" for i
    using check_row_complete[OF complete, of i] flt by simp
  have "validate_and_build_matrix E (JList (pre @ JObj kvs # post))
               = Inl (ValueError (msg_not_numeric f (length pre)))"
    using assms(1) row by (rule validate_stops)
  then have res: "validate_and_build_matrix E (JList (pre @ JObj kvs # post))
      = Inl (ValueError (''Value of '' @ [CHR 0x27] @ f @ [CHR 0x27]
               @ '' in instance '' @ str_nat (length pre) @ '' is not numeric.''))"
    by (simp only: msg_not_numeric_text)
  have digits: "str_nat (length pre) \<noteq> []" "set (str_nat (length pre)) \<subseteq> set ''0123456789''"
    "decimal_value (str_nat (length pre)) = length pre"
    using str_nat_decimal[of "length pre"] by simp_all
  have fails: "\<forall>pre' post'. \<exists>m.
      validate_and_build_matrix E (JList (pre' @ JObj kvs # post')) = Inl (ValueError m)"
  proof (intro allI)
    fix pre' post'
    have "\<forall>i. \<exists>m. check_row E i (JObj kvs) = Inl (ValueError m)"
      using row by blast
    then show "\<exists>m. validate_and_build_matrix E (JList (pre' @ JObj kvs # post'))
        = Inl (ValueError m)"
      by (rule validate_fails)
  qed
  show ?thesis
    apply (rule exI[of _ good])
    apply (rule exI[of _ f])
    apply (rule exI[of _ rest])
    apply (rule exI[of _ "str_nat (length pre)"])
    apply (intro conjI)
           apply (rule split(1))
          apply (rule split(3))
         apply (rule split(2))
        apply (rule res)
       apply (rule digits(1))
      apply (rule digits(2))
     apply (rule digits(3))
    apply (rule fails)
    done
qed

theorem non_numeric_reported_witness:
  "validate_and_build_matrix (sample_env sample_pipeline)
     (JList ([JObj [(''malic_acid'', JFloat (Fin 2)), (''alcohol'', JStr ''13.2'')]]
             @ JObj [(''malic_acid'', JStr ''abc''), (''alcohol'', JInt 12)]
             # [JObj []]))
   = Inl (ValueError ''Value of 'malic_acid' in instance 1 is not numeric.'')"
proof -
  let ?E = "sample_env sample_pipeline"
  let ?pre = "[JObj [(''malic_acid'', JFloat (Fin 2)), (''alcohol'', JStr ''13.2'')]]"
  let ?kvs = "[(''malic_acid'', JStr ''abc''), (''alcohol'', JInt 12)]"
  have h1: "\<forall>i<length ?pre. \<exists>vs. check_row ?E i (?pre ! i) = Inr vs"
    by (simp add: check_row_def sample_env_def)
  have h2: "\<forall>f\<in>set (FEATURE_ORDER ?E). f \<in> fst ` set ?kvs"
    by (simp add: sample_env_def)
  have h3: "\<exists>f\<in>set (FEATURE_ORDER ?E). py_float ?E (the (map_of ?kvs f)) = None"
    by (simp add: sample_env_def)
  from non_numeric_reported[OF h1 h2 h3, of "[JObj []]"]
  obtain m where "validate_and_build_matrix ?E (JList (?pre @ JObj ?kvs # [JObj []]))
               = Inl (ValueError m)"
    by (elim exE conjE) (rule that, assumption)
  then show ?thesis
    by (simp add: validate_and_build_matrix_def check_row_def sample_env_def
        msg_not_numeric_def str_nat_digit digit_char_def)
qed




text \<open>
  C7. Adding keys outside the Feature Schema to the records of a well-formed batch
  changes nothing: validation succeeds and gives the same matrix as without them.
\<close>

theorem extra_keys_ignored:
  assumes "rows \<noteq> []"
      and "\<forall>kvs\<in>set rows. \<forall>f\<in>set (FEATURE_ORDER E).
             \<exists>v x. map_of kvs f = Some v \<and> py_float E v = Some x"
      and "length rows' = length rows"
      and "\<forall>i<length rows. distinct (map fst (rows' ! i))
             \<and> set (rows ! i) \<subseteq> set (rows' ! i)
             \<and> (\<forall>(k, v)\<in>set (rows' ! i) - set (rows ! i). k \<notin> set (FEATURE_ORDER E))"
  shows "\<exists>X. validate_and_build_matrix E (JList (map JObj rows)) = Inr X
            \<and> validate_and_build_matrix E (JList (map JObj rows')) = Inr X"
proof -
  have agree: "\<forall>i<length rows. \<forall>f\<in>set (FEATURE_ORDER E).
                 map_of (rows' ! i) f = map_of (rows ! i) f"
  proof (intro allI impI ballI)
    fix i f assume i: "i < length rows" and f: "f \<in> set (FEATURE_ORDER E)"
    from i have "rows ! i \<in> set rows" by simp
    with assms(2) f obtain v where v: "map_of (rows ! i) f = Some v" by blast
    then have "(f, v) \<in> set (rows ! i)" by (rule map_of_SomeD)
    with assms(4) i have "(f, v) \<in> set (rows' ! i)" "distinct (map fst (rows' ! i))"
      by auto
    then have "map_of (rows' ! i) f = Some v" by simp
    with v show "map_of (rows' ! i) f = map_of (rows ! i) f" by simp
  qed
  have "rows_loop E 0 (map JObj rows') [] = rows_loop E 0 (map JObj rows) []"
    using assms(3) agree by (rule rows_loop_agree)
  moreover from assms(1,3) have "rows' \<noteq> []" by auto
  ultimately have "validate_and_build_matrix E (JList (map JObj rows'))
      = validate_and_build_matrix E (JList (map JObj rows))"
    using assms(1) by (simp add: validate_rows)
  moreover have "\<exists>X. validate_and_build_matrix E (JList (map JObj rows)) = Inr X"
    using assms(1) rows_loop_all_coerce[OF assms(2), of 0 "[]"] by (simp add: validate_rows)
  ultimately show ?thesis by auto
qed

theorem extra_keys_ignored_witness:
  "validate_and_build_matrix (sample_env sample_pipeline)
     (JList (map JObj [[(''malic_acid'', JFloat (Fin 2)), (''alcohol'', JStr ''13.2'')]]))
     = Inr [[Fin (132 / 10), Fin 2]]
   \<and> validate_and_build_matrix (sample_env sample_pipeline)
     (JList (map JObj [[(''color'', JStr ''red''), (''malic_acid'', JFloat (Fin 2)),
                        (''vintage'', JNull), (''alcohol'', JStr ''13.2'')]]))
     = Inr [[Fin (132 / 10), Fin 2]]"
proof -
  let ?E = "sample_env sample_pipeline"
  let ?rows = "[[(''malic_acid'', JFloat (Fin 2)), (''alcohol'', JStr ''13.2'')]]"
  let ?rows' = "[[(''color'', JStr ''red''), (''malic_acid'', JFloat (Fin 2)),
                  (''vintage'', JNull), (''alcohol'', JStr ''13.2'')]]"
  have h1: "?rows \<noteq> []" by simp
  have h2: "\<forall>kvs\<in>set ?rows. \<forall>f\<in>set (FEATURE_ORDER ?E).
              \<exists>v x. map_of kvs f = Some v \<and> py_float ?E v = Some x"
    by (simp add: sample_env_def)
  have h3: "length ?rows' = length ?rows" by simp
  have h4: "\<forall>i<length ?rows. distinct (map fst (?rows' ! i))
             \<and> set (?rows ! i) \<subseteq> set (?rows' ! i)
             \<and> (\<forall>(k, v)\<in>set (?rows' ! i) - set (?rows ! i). k \<notin> set (FEATURE_ORDER ?E))"
    by (auto simp add: sample_env_def)
  from extra_keys_ignored[OF h1 h2 h3 h4]
  obtain X where X: "validate_and_build_matrix ?E (JList (map JObj ?rows)) = Inr X"
    "validate_and_build_matrix ?E (JList (map JObj ?rows')) = Inr X"
    by blast
  have "validate_and_build_matrix ?E (JList (map JObj ?rows)) = Inr [[Fin (132 / 10), Fin 2]]"
    by (simp add: validate_and_build_matrix_def check_row_def sample_env_def)
  with X show ?thesis by simp
qed

lemma validate_complete_rejects:
  assumes "\<forall>kvs\<in>set rows. \<forall>f\<in>set (FEATURE_ORDER E). map_of kvs f \<noteq> None"
      and "\<exists>kvs\<in>set rows. \<exists>f\<in>set (FEATURE_ORDER E). py_float E (the (map_of kvs f)) = None"
  shows "\<exists>i f. i < length rows \<and> f \<in> set (FEATURE_ORDER E)
           \<and> py_float E (the (map_of (rows ! i) f)) = None
           \<and> validate_and_build_matrix E (JList (map JObj rows))
               = Inl (ValueError (msg_not_numeric f i))"
proof -
  let ?bad = "\<lambda>kvs f. py_float E (the (map_of kvs f)) = None"
  let ?P = "\<lambda>kvs. \<exists>f\<in>set (FEATURE_ORDER E). ?bad kvs f"
  from assms(2) obtain pre kvs post where split:
    "rows = pre @ kvs # post" "?P kvs" "\<forall>r\<in>set pre. \<not> ?P r"
    using split_list_first_prop[of rows ?P] by blast
  have pre_ok: "\<forall>i<length (map JObj pre). \<exists>vs. check_row E i (map JObj pre ! i) = Inr vs"
  proof (intro allI impI)
    fix i assume "i < length (map JObj pre)"
    then have i: "i < length pre" by simp
    then have mem: "pre ! i \<in> set pre" by simp
    with split(1) assms(1) have "\<forall>f\<in>set (FEATURE_ORDER E). map_of (pre ! i) f \<noteq> None"
      by simp
    moreover from mem split(3) have "\<forall>f\<in>set (FEATURE_ORDER E). \<not> ?bad (pre ! i) f"
      by auto
    ultimately have "\<forall>f\<in>set (FEATURE_ORDER E).
        \<exists>v x. map_of (pre ! i) f = Some v \<and> py_float E v = Some x"
      by fastforce
    from check_row_all_coerce[OF this, of i] i
    show "\<exists>vs. check_row E i (map JObj pre ! i) = Inr vs" by simp
  qed
  from split(1) assms(1) have complete: "\<forall>f\<in>set (FEATURE_ORDER E). map_of kvs f \<noteq> None"
    by simp
  from split(2) obtain f fs where f: "filter (?bad kvs) (FEATURE_ORDER E) = f # fs"
    by (cases "filter (?bad kvs) (FEATURE_ORDER E)") (auto simp: filter_empty_conv)
  then have "f \<in> set (filter (?bad kvs) (FEATURE_ORDER E))" by simp
  then have fbad: "f \<in> set (FEATURE_ORDER E)" "?bad kvs f" by simp_all
  have "check_row E (length (map JObj pre)) (JObj kvs)
      = Inl (ValueError (msg_not_numeric f (length (map JObj pre))))"
    using check_row_complete[OF complete, of "length (map JObj pre)"] f by simp
  with pre_ok have "validate_and_build_matrix E (JList (map JObj pre @ JObj kvs # map JObj post))
      = Inl (ValueError (msg_not_numeric f (length (map JObj pre))))"
    by (rule validate_stops)
  with split(1) have "validate_and_build_matrix E (JList (map JObj rows))
      = Inl (ValueError (msg_not_numeric f (length pre)))"
    by simp
  moreover from split(1) have "length pre < length rows" "rows ! length pre = kvs"
    by simp_all
  ultimately show ?thesis using fbad by blast
qed

text \<open>
  C10. Validation accepts exactly what \<^verbatim>\<open>float\<close> accepts: for a non-empty batch of
  records that hold every Feature Schema name, validation succeeds if and only if
  \<^verbatim>\<open>float\<close> accepts the value of every schema feature of every record; on success the
  matrix entries are the results of \<^verbatim>\<open>float\<close> unchanged (so a non-finite result is an
  entry of the matrix), and a failure is the not-numeric error of a value that
  \<^verbatim>\<open>float\<close> raises on.
\<close>

theorem coercion_is_float:
  assumes "rows \<noteq> []"
      and "\<forall>kvs\<in>set rows. \<forall>f\<in>set (FEATURE_ORDER E). map_of kvs f \<noteq> None"
  shows "((\<exists>X. validate_and_build_matrix E (JList (map JObj rows)) = Inr X)
            \<longleftrightarrow> (\<forall>kvs\<in>set rows. \<forall>f\<in>set (FEATURE_ORDER E).
                   py_float E (the (map_of kvs f)) \<noteq> None))
       \<and> (\<forall>X. validate_and_build_matrix E (JList (map JObj rows)) = Inr X
             \<longrightarrow> X = map (\<lambda>kvs. map (\<lambda>f. the (py_float E (the (map_of kvs f))))
                                 (FEATURE_ORDER E)) rows)
       \<and> (\<forall>e. validate_and_build_matrix E (JList (map JObj rows)) = Inl e
             \<longrightarrow> (\<exists>i f. i < length rows \<and> f \<in> set (FEATURE_ORDER E)
                    \<and> py_float E (the (map_of (rows ! i) f)) = None
                    \<and> e = ValueError (msg_not_numeric f i)))"
proof (cases "\<forall>kvs\<in>set rows. \<forall>f\<in>set (FEATURE_ORDER E).
                py_float E (the (map_of kvs f)) \<noteq> None")
  case True
  with assms(2) have "\<forall>kvs\<in>set rows. \<forall>f\<in>set (FEATURE_ORDER E).
      \<exists>v x. map_of kvs f = Some v \<and> py_float E v = Some x"
    by fastforce
  from rows_loop_all_coerce[OF this, of 0 "[]"] assms(1)
  have "validate_and_build_matrix E (JList (map JObj rows))
      = Inr (map (\<lambda>kvs. map (\<lambda>f. the (py_float E (the (map_of kvs f))))
                                 (FEATURE_ORDER E)) rows)"
    by (simp add: validate_rows)
  with True show ?thesis by simp
next
  case False
  then have "\<exists>kvs\<in>set rows. \<exists>f\<in>set (FEATURE_ORDER E). py_float E (the (map_of kvs f)) = None"
    by simp
  from validate_complete_rejects[OF assms(2) this]
  obtain i f where rej: "i < length rows" "f \<in> set (FEATURE_ORDER E)"
      "py_float E (the (map_of (rows ! i) f)) = None"
      "validate_and_build_matrix E (JList (map JObj rows)) = Inl (ValueError (msg_not_numeric f i))"
    by blast
  have no_success: "\<not> (\<exists>X. validate_and_build_matrix E (JList (map JObj rows)) = Inr X)"
    using rej(4) by simp
  have "\<forall>e. validate_and_build_matrix E (JList (map JObj rows)) = Inl e
             \<longrightarrow> (\<exists>i f. i < length rows \<and> f \<in> set (FEATURE_ORDER E)
                    \<and> py_float E (the (map_of (rows ! i) f)) = None
                    \<and> e = ValueError (msg_not_numeric f i))"
    using rej by auto
  with no_success False show ?thesis by simp
qed

theorem coercion_is_float_witness:
  "validate_and_build_matrix (sample_env sample_pipeline)
     (JList (map JObj [[(''alcohol'', JStr ''13.2''), (''malic_acid'', JBool True)],
                       [(''alcohol'', JStr ''nan''), (''malic_acid'', JStr ''inf'')],
                       [(''alcohol'', JBool False), (''malic_acid'', JFloat (Fin 2))]]))
     = Inr [[Fin (132 / 10), Fin 1], [NaN, PosInf], [Fin 0, Fin 2]]"
proof -
  let ?E = "sample_env sample_pipeline"
  let ?rows = "[[(''alcohol'', JStr ''13.2''), (''malic_acid'', JBool True)],
                [(''alcohol'', JStr ''nan''), (''malic_acid'', JStr ''inf'')],
                [(''alcohol'', JBool False), (''malic_acid'', JFloat (Fin 2))]]"
  have h1: "?rows \<noteq> []" by simp
  have h2: "\<forall>kvs\<in>set ?rows. \<forall>f\<in>set (FEATURE_ORDER ?E). map_of kvs f \<noteq> None"
    by (simp add: sample_env_def)
  have ok: "\<forall>kvs\<in>set ?rows. \<forall>f\<in>set (FEATURE_ORDER ?E).
              py_float ?E (the (map_of kvs f)) \<noteq> None"
    by (simp add: sample_env_def)
  from coercion_is_float[OF h1 h2] ok
  obtain X where X: "validate_and_build_matrix ?E (JList (map JObj ?rows)) = Inr X"
    by blast
  with coercion_is_float[OF h1 h2]
  have "X = map (\<lambda>kvs. map (\<lambda>f. the (py_float ?E (the (map_of kvs f))))
                                 (FEATURE_ORDER ?E)) ?rows"
    by blast
  then have "X = [[Fin (132 / 10), Fin 1], [NaN, PosInf], [Fin 0, Fin 2]]"
    by (simp add: sample_env_def)
  with X show ?thesis by simp
qed

section \<open>Properties of the handler\<close>

lemma rows_loop_length:
  "rows_loop E idx rows acc = Inr X \<Longrightarrow> length X = length acc + length rows"
  by (induction rows arbitrary: idx acc) (auto split: sum.splits)

lemma validate_success:
  assumes "validate_and_build_matrix E instances = Inr X"
  shows "\<exists>rows. instances = JList rows \<and> length X = length rows"
proof (cases instances)
  case (JList rows)
  with assms have "rows_loop E 0 rows [] = Inr X"
    by (simp add: validate_and_build_matrix_def split: if_splits)
  from rows_loop_length[OF this] JList show ?thesis by simp
qed (use assms in \<open>simp_all add: validate_and_build_matrix_def\<close>)

lemma classes_loop_success:
  "classes_loop E preds acc = Inr cs \<Longrightarrow>
   \<exists>cs'. cs = acc @ cs' \<and> length cs' = length preds
       \<and> (\<forall>i<length preds. py_index (CLASS_NAMES E) (preds ! i) = Inr (cs' ! i))"
proof (induction preds arbitrary: acc)
  case Nil
  then show ?case by simp
next
  case (Cons p preds)
  then obtain c where c: "py_index (CLASS_NAMES E) p = Inr c"
    and rest: "classes_loop E preds (acc @ [c]) = Inr cs"
    by (auto split: sum.splits)
  from Cons.IH[OF rest] obtain cs' where cs': "cs = (acc @ [c]) @ cs'"
    "length cs' = length preds"
    "\<forall>i<length preds. py_index (CLASS_NAMES E) (preds ! i) = Inr (cs' ! i)"
    by blast
  have "\<forall>i<length (p # preds). py_index (CLASS_NAMES E) ((p # preds) ! i) = Inr ((c # cs') ! i)"
  proof (intro allI impI)
    fix i assume "i < length (p # preds)"
    with c cs'(3) show "py_index (CLASS_NAMES E) ((p # preds) ! i) = Inr ((c # cs') ! i)"
      by (cases i) simp_all
  qed
  with cs'(1,2) show ?case by (intro exI[of _ "c # cs'"]) simp
qed

lemma py_index_out_of_range:
  "i < - int (length xs) \<or> int (length xs) \<le> i \<Longrightarrow>
   py_index xs i = Inl (IndexError ''list index out of range'')"
  by (auto simp: py_index_def Let_def)

lemma py_index_error:
  "py_index xs i = Inl e \<Longrightarrow> e = IndexError ''list index out of range''"
  by (auto simp: py_index_def Let_def split: if_splits)

lemma classes_loop_out_of_range:
  "\<exists>i\<in>set preds. i < - int (length (CLASS_NAMES E)) \<or> int (length (CLASS_NAMES E)) \<le> i \<Longrightarrow>
   classes_loop E preds acc = Inl (IndexError ''list index out of range'')"
proof (induction preds arbitrary: acc)
  case Nil
  then show ?case by simp
next
  case (Cons p preds)
  show ?case
  proof (cases "py_index (CLASS_NAMES E) p")
    case (Inl e)
    with py_index_error[OF Inl] show ?thesis by simp
  next
    case (Inr c)
    then have "\<not> (p < - int (length (CLASS_NAMES E)) \<or> int (length (CLASS_NAMES E)) \<le> p)"
      using py_index_out_of_range[of p "CLASS_NAMES E"] by auto
    with Cons.prems have "\<exists>i\<in>set preds.
        i < - int (length (CLASS_NAMES E)) \<or> int (length (CLASS_NAMES E)) \<le> i"
      by auto
    from Cons.IH[OF this] Inr show ?thesis by simp
  qed
qed

lemma predict_200:
  assumes "predict E req = (body, 200)"
  shows "\<exists>payload instances X preds probas classes_str.
           req = Inr payload
         \<and> py_getitem E payload ''instances'' = Inr instances
         \<and> validate_and_build_matrix E instances = Inr X
         \<and> pipeline_predict (MODEL E) X = Inr preds
         \<and> compute_probas E X = Inr probas
         \<and> classes_loop E preds [] = Inr classes_str
         \<and> body = JObj [(''predictions'', JList (map JInt preds)),
                        (''classes'', JList (map JStr classes_str)),
                        (''probas'', probas),
                        (''class_names'', JList (map JStr (CLASS_NAMES E)))]"
  using assms
  by (auto simp: predict_def predict_try_def and_then_def
      split: sum.splits exn.splits if_splits)

lemma predict_raises:
  assumes "predict_try E req = Inl e" and "\<forall>m. e \<noteq> ValueError m"
  shows "predict E req = (error_body (''Internal error: '' @ exn_str e), 500)"
  using assms by (cases e) (simp_all add: predict_def)

section \<open>Responses of the handler\<close>

text \<open>
  C5. In a 200 response, \<^verbatim>\<open>classes\<close> has one entry per entry of \<^verbatim>\<open>predictions\<close> and
  \<open>classes[i]\<close> is \<open>CLASS_NAMES[predictions[i]]\<close> by Python's index lookup;
  \<^verbatim>\<open>predictions\<close> is what the pipeline returned for the matrix of the request's
  instances, and has one entry per instance when the pipeline returns one class id per row.
\<close>

theorem predictions_and_classes_aligned:
  assumes "predict E req = (body, 200)"
      and "\<forall>X ps. pipeline_predict (MODEL E) X = Inr ps \<longrightarrow> length ps = length X"
  shows "\<exists>payload rows X preds classes_str probas.
           req = Inr payload
         \<and> py_getitem E payload ''instances'' = Inr (JList rows)
         \<and> validate_and_build_matrix E (JList rows) = Inr X
         \<and> pipeline_predict (MODEL E) X = Inr preds
         \<and> body = JObj [(''predictions'', JList (map JInt preds)),
                        (''classes'', JList (map JStr classes_str)),
                        (''probas'', probas),
                        (''class_names'', JList (map JStr (CLASS_NAMES E)))]
         \<and> length preds = length rows
         \<and> length classes_str = length preds
         \<and> (\<forall>i<length preds. py_index (CLASS_NAMES E) (preds ! i) = Inr (classes_str ! i))"
proof -
  from predict_200[OF assms(1)]
  obtain payload instances X preds probas classes_str where ok:
    "req = Inr payload"
    "py_getitem E payload ''instances'' = Inr instances"
    "validate_and_build_matrix E instances = Inr X"
    "pipeline_predict (MODEL E) X = Inr preds"
    "classes_loop E preds [] = Inr classes_str"
    "body = JObj [(''predictions'', JList (map JInt preds)),
                  (''classes'', JList (map JStr classes_str)),
                  (''probas'', probas),
                  (''class_names'', JList (map JStr (CLASS_NAMES E)))]"
    by blast
  from validate_success[OF ok(3)] obtain rows where rows:
    "instances = JList rows" "length X = length rows"
    by blast
  from assms(2) ok(4) rows(2) have len: "length preds = length rows"
    by simp
  from classes_loop_success[OF ok(5)]
  have cls: "length classes_str = length preds"
    "\<forall>i<length preds. py_index (CLASS_NAMES E) (preds ! i) = Inr (classes_str ! i)"
    by auto
  from ok rows len cls show ?thesis by blast
qed

theorem predictions_and_classes_aligned_witness:
  "predict (sample_env sample_pipeline)
     (Inr (JObj [(''instances'',
        JList [JObj [(''malic_acid'', JFloat (Fin 2)), (''alcohol'', JStr ''13.2'')],
               JObj [(''alcohol'', JInt 12), (''malic_acid'', JBool True)]])]))
   = (JObj [(''predictions'', JList [JInt 1, JInt 1]),
            (''classes'', JList [JStr ''class_1'', JStr ''class_1'']),
            (''probas'', JList [JList [JFloat (Fin 0), JFloat (Fin 1), JFloat (Fin 0)],
                                JList [JFloat (Fin 0), JFloat (Fin 1), JFloat (Fin 0)]]),
            (''class_names'', JList [JStr ''class_0'', JStr ''class_1'', JStr ''class_2''])],
      200)
   \<and> py_index (CLASS_NAMES (sample_env sample_pipeline)) 1 = Inr ''class_1''"
proof -
  let ?E = "sample_env sample_pipeline"
  let ?req = "Inr (JObj [(''instances'',
        JList [JObj [(''malic_acid'', JFloat (Fin 2)), (''alcohol'', JStr ''13.2'')],
               JObj [(''alcohol'', JInt 12), (''malic_acid'', JBool True)]])])"
  let ?body = "JObj [(''predictions'', JList [JInt 1, JInt 1]),
            (''classes'', JList [JStr ''class_1'', JStr ''class_1'']),
            (''probas'', JList [JList [JFloat (Fin 0), JFloat (Fin 1), JFloat (Fin 0)],
                                JList [JFloat (Fin 0), JFloat (Fin 1), JFloat (Fin 0)]]),
            (''class_names'', JList [JStr ''class_0'', JStr ''class_1'', JStr ''class_2''])]"
  have h1: "predict ?E ?req = (?body, 200)"
    by (simp add: predict_def predict_try_def and_then_def py_in_def py_getitem_def
        validate_and_build_matrix_def check_row_def compute_probas_def py_index_def
        sample_env_def sample_pipeline_def)
  have h2: "\<forall>X ps. pipeline_predict (MODEL ?E) X = Inr ps \<longrightarrow> length ps = length X"
    by (auto simp: sample_env_def sample_pipeline_def)
  from predictions_and_classes_aligned[OF h1 h2]
  obtain preds classes_str probas where
    body: "?body = JObj [(''predictions'', JList (map JInt preds)),
                        (''classes'', JList (map JStr classes_str)),
                        (''probas'', probas),
                        (''class_names'', JList (map JStr (CLASS_NAMES ?E)))]"
    and idx: "\<forall>i<length preds. py_index (CLASS_NAMES ?E) (preds ! i) = Inr (classes_str ! i)"
    by (elim exE conjE) (rule that, assumption+)
  from body have "map JInt preds = [JInt 1, JInt 1]"
    "map JStr classes_str = [JStr ''class_1'', JStr ''class_1'']"
    by auto
  then have "preds = [1, 1]" "classes_str = [''class_1'', ''class_1'']"
    by (auto simp: map_eq_Cons_conv)
  with idx have "py_index (CLASS_NAMES ?E) 1 = Inr ''class_1''"
    by auto
  with h1 show ?thesis by simp
qed

text \<open>
  C1, as stated, fails: with a pipeline that has no \<^verbatim>\<open>predict_proba\<close> the 200 response
  still has the field \<^verbatim>\<open>probas\<close>, with the value null.
\<close>

theorem probas_absent_counterexample:
  "pipeline_predict_proba (MODEL (sample_env sample_pipeline_no_proba)) = None
   \<and> predict (sample_env sample_pipeline_no_proba)
       (Inr (JObj [(''instances'',
          JList [JObj [(''malic_acid'', JFloat (Fin 2)), (''alcohol'', JStr ''13.2'')]])]))
     = (JObj [(''predictions'', JList [JInt 1]),
              (''classes'', JList [JStr ''class_1'']),
              (''probas'', JNull),
              (''class_names'', JList [JStr ''class_0'', JStr ''class_1'', JStr ''class_2''])],
        200)"
  by (simp add: predict_def predict_try_def and_then_def py_in_def py_getitem_def
      validate_and_build_matrix_def check_row_def compute_probas_def py_index_def
      sample_env_def sample_pipeline_no_proba_def)

text \<open>
  C1, amended. If the pipeline has no \<^verbatim>\<open>predict_proba\<close>, every 200 response has the
  field \<^verbatim>\<open>probas\<close> and its value is null: not a list of zeros and not an empty list.
\<close>

theorem probas_null_without_predict_proba:
  assumes "pipeline_predict_proba (MODEL E) = None"
      and "predict E req = (body, 200)"
  shows "\<exists>kvs. body = JObj kvs \<and> map fst kvs = [''predictions'', ''classes'', ''probas'', ''class_names'']
           \<and> map_of kvs ''probas'' = Some JNull"
proof -
  from predict_200[OF assms(2)]
  obtain X preds probas classes_str where ok:
    "compute_probas E X = Inr probas"
    "body = JObj [(''predictions'', JList (map JInt preds)),
                  (''classes'', JList (map JStr classes_str)),
                  (''probas'', probas),
                  (''class_names'', JList (map JStr (CLASS_NAMES E)))]"
    by blast
  from ok(1) assms(1) have "probas = JNull"
    by (simp add: compute_probas_def)
  with ok(2) show ?thesis by simp
qed

theorem probas_null_without_predict_proba_witness:
  "\<exists>kvs. fst (predict (sample_env sample_pipeline_no_proba)
       (Inr (JObj [(''instances'',
          JList [JObj [(''alcohol'', JInt 12), (''malic_acid'', JBool True)]])]))) = JObj kvs
     \<and> map_of kvs ''probas'' = Some JNull"
proof -
  let ?E = "sample_env sample_pipeline_no_proba"
  let ?req = "Inr (JObj [(''instances'',
          JList [JObj [(''alcohol'', JInt 12), (''malic_acid'', JBool True)]])])"
  have h1: "pipeline_predict_proba (MODEL ?E) = None"
    by (simp add: sample_env_def sample_pipeline_no_proba_def)
  have "snd (predict ?E ?req) = 200"
    by (simp add: predict_def predict_try_def and_then_def py_in_def py_getitem_def
      validate_and_build_matrix_def check_row_def compute_probas_def py_index_def
      sample_env_def sample_pipeline_no_proba_def)
  then have h2: "predict ?E ?req = (fst (predict ?E ?req), 200)"
    by (metis prod.collapse)
  from probas_null_without_predict_proba[OF h1 h2] show ?thesis by blast
qed

text \<open>
  C6. The handler answers 400 for a failure that is not a validation error: the
  \<^verbatim>\<open>except ValueError\<close> clause, which the source marks as the one for controlled
  validation errors, spans the whole \<^verbatim>\<open>try\<close> body. Here validation succeeds, the
  pipeline then raises \<^verbatim>\<open>ValueError\<close> on the infinite entry, and the response has
  status 400 with the pipeline's text.
\<close>

theorem pipeline_value_error_answered_400:
  "validate_and_build_matrix (sample_env sample_pipeline_finite_check)
       (JList [JObj [(''alcohol'', JStr ''inf''), (''malic_acid'', JFloat (Fin 2))]])
     = Inr [[PosInf, Fin 2]]
   \<and> pipeline_predict (MODEL (sample_env sample_pipeline_finite_check)) [[PosInf, Fin 2]]
     = Inl (ValueError ''Input X contains infinity or a value too large.'')
   \<and> predict (sample_env sample_pipeline_finite_check)
       (Inr (JObj [(''instances'',
          JList [JObj [(''alcohol'', JStr ''inf''), (''malic_acid'', JFloat (Fin 2))]])]))
     = (JObj [(''error'', JStr ''Input X contains infinity or a value too large.'')], 400)"
  by (simp add: predict_def predict_try_def and_then_def py_in_def py_getitem_def
      validate_and_build_matrix_def check_row_def error_body_def
      sample_env_def sample_pipeline_finite_check_def)

text \<open>
  The failure that C6 names does get status 500: when the pipeline returns a class id
  outside the range of \<^verbatim>\<open>CLASS_NAMES\<close>, the lookup raises \<^verbatim>\<open>IndexError\<close> and the
  response carries \<^verbatim>\<open>Internal error: \<close> followed by the exception's text.
\<close>

lemma out_of_range_class_id_is_500:
  assumes "map_of kvs ''instances'' = Some instances"
      and "validate_and_build_matrix E instances = Inr X"
      and "pipeline_predict (MODEL E) X = Inr preds"
      and "compute_probas E X = Inr probas"
      and "\<exists>i\<in>set preds. i < - int (length (CLASS_NAMES E)) \<or> int (length (CLASS_NAMES E)) \<le> i"
  shows "predict E (Inr (JObj kvs))
           = (JObj [(''error'', JStr ''Internal error: list index out of range'')], 500)"
proof -
  from assms(5) have "classes_loop E preds [] = Inl (IndexError ''list index out of range'')"
    by (rule classes_loop_out_of_range)
  moreover from assms(1) have "''instances'' \<in> fst ` set kvs"
    by (metis map_of_eq_None_iff option.distinct(1))
  ultimately have "predict_try E (Inr (JObj kvs)) = Inl (IndexError ''list index out of range'')"
    using assms(1-4) by (simp add: predict_try_def and_then_def py_in_def py_getitem_def)
  from predict_raises[OF this] show ?thesis
    by (simp add: error_body_def)
qed

lemma out_of_range_class_id_example:
  "predict (sample_env sample_pipeline_mismatched)
     (Inr (JObj [(''instances'',
        JList [JObj [(''alcohol'', JInt 12), (''malic_acid'', JBool True)]])]))
   = (JObj [(''error'', JStr ''Internal error: list index out of range'')], 500)"
  by (simp add: predict_def predict_try_def and_then_def py_in_def py_getitem_def
      validate_and_build_matrix_def check_row_def compute_probas_def py_index_def
      error_body_def sample_env_def sample_pipeline_mismatched_def)

section \<open>Properties of the artifact files\<close>

lemma mkdir_parents_creates:
  assumes "\<forall>q. q \<noteq> [] \<and> prefix q cs \<longrightarrow> fs (pre @ q) = None \<or> fs (pre @ q) = Some Dir"
  shows "\<exists>fs'. mkdir_parents fs pre cs = Inr fs'
           \<and> (\<forall>q. q \<noteq> [] \<and> prefix q cs \<longrightarrow> fs' (pre @ q) = Some Dir)
           \<and> (\<forall>p. (\<forall>q. q \<noteq> [] \<and> prefix q cs \<longrightarrow> p \<noteq> pre @ q) \<longrightarrow> fs' p = fs p)"
  using assms
proof (induction cs arbitrary: fs pre)
  case Nil
  then show ?case by simp
next
  case (Cons c cs)
  define fs1 where "fs1 = (case fs (pre @ [c]) of None \<Rightarrow> fs(pre @ [c] \<mapsto> Dir) | Some _ \<Rightarrow> fs)"
  from Cons.prems have here: "fs (pre @ [c]) = None \<or> fs (pre @ [c]) = Some Dir"
    by (metis Cons_prefix_Cons Nil_prefix not_Cons_self2)
  then have step: "mkdir_parents fs pre (c # cs) = mkdir_parents fs1 (pre @ [c]) cs"
    by (auto simp: fs1_def)
  from here have fs1_here: "fs1 (pre @ [c]) = Some Dir"
    by (auto simp: fs1_def)
  have fs1_other: "fs1 p = fs p" if "p \<noteq> pre @ [c]" for p
    using that by (auto simp: fs1_def split: option.splits)
  have "\<forall>q. q \<noteq> [] \<and> prefix q cs \<longrightarrow> fs1 ((pre @ [c]) @ q) = None \<or> fs1 ((pre @ [c]) @ q) = Some Dir"
  proof (intro allI impI)
    fix q assume q: "q \<noteq> [] \<and> prefix q cs"
    then have "c # q \<noteq> [] \<and> prefix (c # q) (c # cs)" by simp
    with Cons.prems have "fs (pre @ c # q) = None \<or> fs (pre @ c # q) = Some Dir"
      by blast
    moreover from q have "(pre @ [c]) @ q \<noteq> pre @ [c]" by simp
    ultimately show "fs1 ((pre @ [c]) @ q) = None \<or> fs1 ((pre @ [c]) @ q) = Some Dir"
      using fs1_other by simp
  qed
  from Cons.IH[OF this] obtain fs' where fs':
    "mkdir_parents fs1 (pre @ [c]) cs = Inr fs'"
    "\<forall>q. q \<noteq> [] \<and> prefix q cs \<longrightarrow> fs' ((pre @ [c]) @ q) = Some Dir"
    "\<forall>p. (\<forall>q. q \<noteq> [] \<and> prefix q cs \<longrightarrow> p \<noteq> (pre @ [c]) @ q) \<longrightarrow> fs' p = fs1 p"
    by blast
  have dirs: "\<forall>q. q \<noteq> [] \<and> prefix q (c # cs) \<longrightarrow> fs' (pre @ q) = Some Dir"
  proof (intro allI impI)
    fix q assume q: "q \<noteq> [] \<and> prefix q (c # cs)"
    then obtain q' where q': "q = c # q'" "prefix q' cs"
      by (auto simp: prefix_Cons)
    show "fs' (pre @ q) = Some Dir"
    proof (cases "q' = []")
      case True
      have "\<forall>r. r \<noteq> [] \<and> prefix r cs \<longrightarrow> pre @ [c] \<noteq> (pre @ [c]) @ r" by auto
      with fs'(3) have "fs' (pre @ [c]) = fs1 (pre @ [c])" by blast
      with fs1_here True q' show ?thesis by simp
    next
      case False
      with fs'(2) q' show ?thesis by simp
    qed
  qed
  have others: "\<forall>p. (\<forall>q. q \<noteq> [] \<and> prefix q (c # cs) \<longrightarrow> p \<noteq> pre @ q) \<longrightarrow> fs' p = fs p"
  proof (intro allI impI)
    fix p assume p: "\<forall>q. q \<noteq> [] \<and> prefix q (c # cs) \<longrightarrow> p \<noteq> pre @ q"
    then have "p \<noteq> pre @ [c]" by (metis Cons_prefix_Cons Nil_prefix not_Cons_self2)
    moreover have "\<forall>q. q \<noteq> [] \<and> prefix q cs \<longrightarrow> p \<noteq> (pre @ [c]) @ q"
    proof (intro allI impI)
      fix q assume "q \<noteq> [] \<and> prefix q cs"
      then have "c # q \<noteq> [] \<and> prefix (c # q) (c # cs)" by simp
      with p have "p \<noteq> pre @ c # q" by blast
      then show "p \<noteq> (pre @ [c]) @ q" by simp
    qed
    ultimately show "fs' p = fs p" using fs'(3) fs1_other by simp
  qed
  from step fs'(1) dirs others show ?case by simp
qed

lemma write_file_ok:
  assumes "fs p \<noteq> Some Dir" and "butlast p = [] \<or> fs (butlast p) = Some Dir"
  shows "write_file fs p c = Inr (fs(p \<mapsto> c))"
  using assms by (auto simp: write_file_def split: option.splits node.splits)

section \<open>Saving and loading the artifacts\<close>

text \<open>
  C8. When no component of the target path is a regular file and the two artifact names
  under it are not directories, \<open>save_artifacts\<close> succeeds: afterwards the target
  directory and its parents exist, and \<^verbatim>\<open>features.json\<close> holds the record with the single
  key \<^verbatim>\<open>feature_order\<close> and the feature names in their order. Reading
  \<^verbatim>\<open>feature_order\<close> from that record gives the same list, and when the target is the
  service's artifact directory, startup loads the saved model and that list.
\<close>

theorem save_artifacts_roundtrip:
  assumes "\<forall>q. q \<noteq> [] \<and> prefix q out \<longrightarrow> fs q = None \<or> fs q = Some Dir"
      and "fs (out @ [''model.joblib'']) \<noteq> Some Dir"
      and "fs (out @ [''features.json'']) \<noteq> Some Dir"
  shows "\<exists>fs'. save_artifacts fs model feature_names out = Inr fs'
           \<and> (\<forall>q. q \<noteq> [] \<and> prefix q out \<longrightarrow> fs' q = Some Dir)
           \<and> fs' (out @ [''model.joblib'']) = Some (ModelFile model)
           \<and> fs' (out @ [''features.json''])
               = Some (JsonFile (JObj [(''feature_order'', JList (map JStr feature_names))]))
           \<and> read_feature_order (JObj [(''feature_order'', JList (map JStr feature_names))])
               = Inr (JList (map JStr feature_names))
           \<and> (out = ARTIFACTS_DIR
                \<longrightarrow> load_artifacts fs' = Inr (model, JList (map JStr feature_names)))"
proof -
  let ?mp = "out @ [''model.joblib'']"
  let ?fp = "out @ [''features.json'']"
  let ?doc = "JObj [(''feature_order'', JList (map JStr feature_names))]"
  from assms(1) have "\<forall>q. q \<noteq> [] \<and> prefix q out \<longrightarrow> fs ([] @ q) = None \<or> fs ([] @ q) = Some Dir"
    by simp
  from mkdir_parents_creates[OF this] obtain fs1 where fs1:
    "mkdir_parents fs [] out = Inr fs1"
    "\<forall>q. q \<noteq> [] \<and> prefix q out \<longrightarrow> fs1 q = Some Dir"
    "\<forall>p. (\<forall>q. q \<noteq> [] \<and> prefix q out \<longrightarrow> p \<noteq> q) \<longrightarrow> fs1 p = fs p"
    by auto
  have not_prefix: "\<not> prefix (out @ [x]) out" for x :: string
    by (auto simp: prefix_def)
  have out_dir: "out = [] \<or> fs1 out = Some Dir"
    using fs1(2) by auto
  have "fs1 ?mp = fs ?mp" "fs1 ?fp = fs ?fp"
    using fs1(3) not_prefix by blast+
  with assms(2,3) have free: "fs1 ?mp \<noteq> Some Dir" "fs1 ?fp \<noteq> Some Dir"
    by simp_all
  define fs2 where "fs2 = fs1(?mp \<mapsto> ModelFile model)"
  define fs3 where "fs3 = fs2(?fp \<mapsto> JsonFile ?doc)"
  have w1: "write_file fs1 ?mp (ModelFile model) = Inr fs2"
    unfolding fs2_def using free(1) out_dir by (intro write_file_ok) auto
  have "fs2 ?fp \<noteq> Some Dir" "butlast ?fp = [] \<or> fs2 (butlast ?fp) = Some Dir"
    using free(2) out_dir by (auto simp: fs2_def)
  then have w2: "write_file fs2 ?fp (JsonFile ?doc) = Inr fs3"
    unfolding fs3_def by (rule write_file_ok)
  have saved: "save_artifacts fs model feature_names out = Inr fs3"
    using fs1(1) w1 w2 by (simp add: save_artifacts_def and_then_def)
  have dirs: "\<forall>q. q \<noteq> [] \<and> prefix q out \<longrightarrow> fs3 q = Some Dir"
  proof (intro allI impI)
    fix q assume q: "q \<noteq> [] \<and> prefix q out"
    with not_prefix have "q \<noteq> ?mp" "q \<noteq> ?fp" by auto
    with q fs1(2) show "fs3 q = Some Dir" by (simp add: fs3_def fs2_def)
  qed
  have mfile: "fs3 ?mp = Some (ModelFile model)"
    by (simp add: fs3_def fs2_def)
  have ffile: "fs3 ?fp = Some (JsonFile ?doc)"
    by (simp add: fs3_def)
  have rd: "read_feature_order ?doc = Inr (JList (map JStr feature_names))"
    by (simp add: read_feature_order_def)
  have "load_artifacts fs3 = Inr (model, JList (map JStr feature_names))" if "out = ARTIFACTS_DIR"
    using that mfile ffile
    by (simp add: load_artifacts_def MODEL_PATH_def FEATURES_PATH_def
        joblib_load_def json_load_def and_then_def rd)
  with saved dirs mfile ffile rd show ?thesis by blast
qed

theorem save_artifacts_roundtrip_witness:
  "(\<exists>fs'. save_artifacts (Map.empty :: (nat, pyfloat) fs) 7 [''alcohol'', ''malic_acid''] [''out'', ''run1'']
            = Inr fs'
         \<and> fs' [''out'', ''run1''] = Some Dir
         \<and> fs' [''out'', ''run1'', ''features.json'']
             = Some (JsonFile (JObj [(''feature_order'',
                  JList [JStr ''alcohol'', JStr ''malic_acid''])])))
   \<and> (\<exists>fs'. save_artifacts (Map.empty :: (nat, pyfloat) fs) 7 [''alcohol'', ''malic_acid''] []
            = Inr fs'
         \<and> load_artifacts fs' = Inr (7, JList [JStr ''alcohol'', JStr ''malic_acid'']))"
proof -
  let ?fs = "Map.empty :: (nat, pyfloat) fs"
  have a: "\<forall>q. q \<noteq> [] \<and> prefix q out \<longrightarrow> ?fs q = None \<or> ?fs q = Some Dir" for out :: path
    by simp
  have b: "?fs (out @ [''model.joblib'']) \<noteq> Some Dir"
    "?fs (out @ [''features.json'']) \<noteq> Some Dir" for out :: path
    by simp_all
  from save_artifacts_roundtrip[where fs = ?fs and out = "[''out'', ''run1'']" and model = 7
      and feature_names = "[''alcohol'', ''malic_acid'']", OF a b]
  have first: "\<exists>fs'. save_artifacts ?fs 7 [''alcohol'', ''malic_acid''] [''out'', ''run1''] = Inr fs'
         \<and> fs' [''out'', ''run1''] = Some Dir
         \<and> fs' [''out'', ''run1'', ''features.json'']
             = Some (JsonFile (JObj [(''feature_order'',
                  JList [JStr ''alcohol'', JStr ''malic_acid''])]))"
    by auto
  from save_artifacts_roundtrip[where fs = ?fs and out = "[]" and model = 7
      and feature_names = "[''alcohol'', ''malic_acid'']", OF a b]
  have second: "\<exists>fs'. save_artifacts ?fs 7 [''alcohol'', ''malic_acid''] [] = Inr fs'
         \<and> load_artifacts fs' = Inr (7, JList [JStr ''alcohol'', JStr ''malic_acid''])"
    by (auto simp: ARTIFACTS_DIR_def)
  from first second show ?thesis by (rule conjI)
qed

end
